theory Spec2Isabelle
  imports Complex_Main "HOL-Library.Sublist" "HOL-Library.AList"
begin

section \<open>JavaScript values and exceptions\<close>

text \<open>
  The services of \<^verbatim>\<open>src/services/mistral.ts\<close> work on the result of \<^verbatim>\<open>JSON.parse\<close>, which
  is untyped at run time. Values are therefore modelled dynamically. Numbers are real
  numbers: the rounding of IEEE doubles, \<^verbatim>\<open>NaN\<close> and the infinities are abstracted away.
  An object is an association list read with \<open>map_of\<close>.
\<close>

datatype jsval =
    JUndefined
  | JNull
  | JBool bool
  | JNum real
  | JStr string
  | JArr "jsval list"
  | JObj "(string \<times> jsval) list"

text \<open>
  What a \<^verbatim>\<open>throw\<close> or a rejected promise carries. \<open>Unmodelled\<close> marks the one place where
  the model stops: arithmetic on an operand that is not a number (JavaScript would coerce it).
\<close>

datatype error =
    TypeError
  | SyntaxError
  | ZodError
  | ChatError
  | FetchError
  | SearchFailed
  | GeolocationError
  | Unmodelled

definition bindE :: "error + 'a \<Rightarrow> ('a \<Rightarrow> error + 'b) \<Rightarrow> error + 'b" where
  "bindE m f = (case m of Inl e \<Rightarrow> Inl e | Inr x \<Rightarrow> f x)"

text \<open>
  Property read \<^verbatim>\<open>o.p\<close>: a TypeError on \<^verbatim>\<open>undefined\<close> and \<^verbatim>\<open>null\<close>, the own property of an
  object, and \<^verbatim>\<open>undefined\<close> on primitives and arrays (none of the names the services read,
  apart from \<^verbatim>\<open>length\<close> which has its own function below, is a built-in property).
\<close>

fun get :: "jsval \<Rightarrow> string \<Rightarrow> error + jsval" where
  "get JUndefined p = Inl TypeError"
| "get JNull p = Inl TypeError"
| "get (JObj kvs) p = Inr (case map_of kvs p of None \<Rightarrow> JUndefined | Some v \<Rightarrow> v)"
| "get v p = Inr JUndefined"

text \<open>Optional chaining \<^verbatim>\<open>o?.p\<close>.\<close>

fun opt_get :: "jsval \<Rightarrow> string \<Rightarrow> jsval" where
  "opt_get (JObj kvs) p = (case map_of kvs p of None \<Rightarrow> JUndefined | Some v \<Rightarrow> v)"
| "opt_get v p = JUndefined"

text \<open>\<^verbatim>\<open>v.length\<close>; strings count bytes here.\<close>

fun js_length :: "jsval \<Rightarrow> error + jsval" where
  "js_length (JArr xs) = Inr (JNum (real (length xs)))"
| "js_length (JStr s) = Inr (JNum (real (length s)))"
| "js_length v = get v ''length''"

text \<open>Property write \<^verbatim>\<open>o.p = v\<close> on an object.\<close>

fun put :: "jsval \<Rightarrow> string \<Rightarrow> jsval \<Rightarrow> error + jsval" where
  "put (JObj kvs) p v = Inr (JObj (AList.update p v kvs))"
| "put other p v = Inl TypeError"

fun truthy :: "jsval \<Rightarrow> bool" where
  "truthy JUndefined = False"
| "truthy JNull = False"
| "truthy (JBool b) = b"
| "truthy (JNum r) = (r \<noteq> 0)"
| "truthy (JStr s) = (s \<noteq> [])"
| "truthy v = True"

text \<open>
  Strict equality \<^verbatim>\<open>a === b\<close>, for an \<open>a\<close> read from one parsed document and a \<open>b\<close> from
  elsewhere: two objects or arrays are never the same reference.
\<close>

fun strict_eq :: "jsval \<Rightarrow> jsval \<Rightarrow> bool" where
  "strict_eq (JArr xs) b = False"
| "strict_eq (JObj kvs) b = False"
| "strict_eq a b = (a = b)"

fun intercalate :: "'a list \<Rightarrow> 'a list list \<Rightarrow> 'a list" where
  "intercalate sep [] = []"
| "intercalate sep [x] = x"
| "intercalate sep (x # y # zs) = x @ sep @ intercalate sep (y # zs)"

text \<open>
  String conversion, as a template literal applies it. The digits of a number are the
  runtime's business: \<open>ns\<close> stands for \<^verbatim>\<open>Number.prototype.toString\<close>.
\<close>

fun toString :: "(real \<Rightarrow> string) \<Rightarrow> jsval \<Rightarrow> string" where
  "toString ns JUndefined = ''undefined''"
| "toString ns JNull = ''null''"
| "toString ns (JBool b) = (if b then ''true'' else ''false'')"
| "toString ns (JNum r) = ns r"
| "toString ns (JStr s) = s"
| "toString ns (JArr xs) =
     intercalate '','' (map (\<lambda>x. if x = JUndefined \<or> x = JNull then [] else toString ns x) xs)"
| "toString ns (JObj kvs) = ''[object Object]''"

text \<open>\<^verbatim>\<open>Array.prototype.join\<close>: \<^verbatim>\<open>undefined\<close> and \<^verbatim>\<open>null\<close> elements give the empty string.\<close>

definition join :: "(real \<Rightarrow> string) \<Rightarrow> jsval list \<Rightarrow> string \<Rightarrow> string" where
  "join ns xs sep =
     intercalate sep (map (\<lambda>x. if x = JUndefined \<or> x = JNull then [] else toString ns x) xs)"

section \<open>URL encoding\<close>

definition hexDigit :: "nat \<Rightarrow> char" where
  "hexDigit n = ''0123456789ABCDEF'' ! (n mod 16)"

definition percent :: "char \<Rightarrow> string" where
  "percent c = [CHR ''%'', hexDigit (of_char c div 16), hexDigit (of_char c)]"

definition isAlnum :: "char \<Rightarrow> bool" where
  "isAlnum c = (let n = (of_char c :: nat) in
     (48 \<le> n \<and> n \<le> 57) \<or> (65 \<le> n \<and> n \<le> 90) \<or> (97 \<le> n \<and> n \<le> 122))"

text \<open>\<^verbatim>\<open>encodeURIComponent\<close> on the bytes of a string.\<close>

definition encodeURIComponent :: "string \<Rightarrow> string" where
  "encodeURIComponent s =
     concat (map (\<lambda>c. if isAlnum c \<or> c \<in> set [CHR ''-'', CHR ''_'', CHR ''.'', CHR ''!'', CHR ''~'',
                                               CHR ''*'', CHR 0x27, CHR ''('', CHR '')'']
                       then [c] else percent c) s)"

text \<open>
  \<^verbatim>\<open>URLSearchParams\<close>: a list of name/value pairs, \<^verbatim>\<open>append\<close> adds at the end, and
  \<^verbatim>\<open>toString\<close> is the form-urlencoded serializer (a space becomes \<^verbatim>\<open>+\<close>).
\<close>

definition formEncode :: "string \<Rightarrow> string" where
  "formEncode s =
     concat (map (\<lambda>c. if c = CHR '' '' then ''+''
                       else if isAlnum c \<or> c \<in> set [CHR ''*'', CHR ''-'', CHR ''.'', CHR ''_'']
                       then [c] else percent c) s)"

definition URLSearchParams_toString :: "(string \<times> string) list \<Rightarrow> string" where
  "URLSearchParams_toString params =
     intercalate ''&'' (map (\<lambda>(k, v). formEncode k @ ''='' @ formEncode v) params)"

section \<open>The schema library\<close>

text \<open>
  The fragment of the validation library that \<^verbatim>\<open>ParsedQuerySchema\<close> uses. \<open>zparse\<close> is the
  schema's \<^verbatim>\<open>parse\<close> with \<open>None\<close> for the thrown validation error. An object schema accepts
  objects only (not arrays, not \<^verbatim>\<open>null\<close>), validates each declared key and strips every
  other key; \<^verbatim>\<open>optional()\<close> accepts \<^verbatim>\<open>undefined\<close> and nothing else in addition.
\<close>

datatype zschema =
    ZString
  | ZNumber
  | ZBoolean
  | ZArray zschema
  | ZObject "(string \<times> zschema) list"
  | ZOptional zschema

fun zparse :: "zschema \<Rightarrow> jsval \<Rightarrow> jsval option"
  and zparse_array :: "zschema \<Rightarrow> jsval list \<Rightarrow> jsval list option"
  and zparse_shape :: "(string \<times> zschema) list \<Rightarrow> jsval \<Rightarrow> (string \<times> jsval) list option"
where
  "zparse ZString v = (case v of JStr s \<Rightarrow> Some v | _ \<Rightarrow> None)"
| "zparse ZNumber v = (case v of JNum r \<Rightarrow> Some v | _ \<Rightarrow> None)"
| "zparse ZBoolean v = (case v of JBool b \<Rightarrow> Some v | _ \<Rightarrow> None)"
| "zparse (ZArray s) v = (case v of JArr xs \<Rightarrow> map_option JArr (zparse_array s xs) | _ \<Rightarrow> None)"
| "zparse (ZObject shape) v =
     (case v of JObj kvs \<Rightarrow> map_option JObj (zparse_shape shape v) | _ \<Rightarrow> None)"
| "zparse (ZOptional s) v = (if v = JUndefined then Some JUndefined else zparse s v)"
| "zparse_array s [] = Some []"
| "zparse_array s (x # xs) =
     (case zparse s x of None \<Rightarrow> None
      | Some y \<Rightarrow> (case zparse_array s xs of None \<Rightarrow> None | Some ys \<Rightarrow> Some (y # ys)))"
| "zparse_shape [] v = Some []"
| "zparse_shape ((k, s) # shape) v =
     (case zparse s (opt_get v k) of None \<Rightarrow> None
      | Some y \<Rightarrow> (case zparse_shape shape v of None \<Rightarrow> None
                   | Some ys \<Rightarrow> Some (if y = JUndefined then ys else (k, y) # ys)))"

definition ParsedQuerySchema :: zschema where
  "ParsedQuerySchema = ZObject [
     (''searchTerm'', ZString),
     (''location'', ZOptional (ZObject [
        (''coordinates'', ZOptional (ZObject [(''latitude'', ZNumber), (''longitude'', ZNumber)])),
        (''radius'', ZOptional ZNumber)])),
     (''filters'', ZOptional (ZObject [
        (''temporal'', ZOptional (ZObject [(''openNow'', ZOptional ZBoolean)]))])),
     (''osmTags'', ZOptional (ZArray (ZObject [(''key'', ZString), (''value'', ZString)])))]"

section \<open>The outside world\<close>

text \<open>
  The language model, the tag registry and the geocoder are not part of the program: each
  call is answered by an oracle of the environment. A chat call together with the
  \<^verbatim>\<open>JSON.parse\<close> of its content either fails (the call rejects or the reply has no content),
  or yields text that is not JSON, or yields a parsed value. A \<^verbatim>\<open>fetch\<close> rejects or gives a
  response with its \<^verbatim>\<open>ok\<close> flag and a body (\<open>None\<close>: \<^verbatim>\<open>response.json()\<close> rejects).
  The geocoder may answer the same URL differently at different times,
  so its oracle also takes the number of geocoding requests made before.
\<close>

datatype chat_outcome = ChatFailed | InvalidJSON | Reply jsval

datatype fetch_result = NetworkError | Response bool "jsval option"

record env =
  numToString :: "real \<Rightarrow> string"
  chat_analysis :: "string \<Rightarrow> chat_outcome"
  chat_mapping :: "string \<Rightarrow> chat_outcome"
  taginfo :: "string \<Rightarrow> fetch_result"
  geocode :: "nat \<Rightarrow> string \<Rightarrow> fetch_result"

fun chat_json :: "chat_outcome \<Rightarrow> error + jsval" where
  "chat_json ChatFailed = Inl ChatError"
| "chat_json InvalidJSON = Inl SyntaxError"
| "chat_json (Reply v) = Inr v"

text \<open>\<^verbatim>\<open>(await fetch(url)).json()\<close>, with no look at the status.\<close>

fun fetch_json :: "fetch_result \<Rightarrow> error + jsval" where
  "fetch_json NetworkError = Inl FetchError"
| "fetch_json (Response ok None) = Inl SyntaxError"
| "fetch_json (Response ok (Some v)) = Inr v"

record user_location =
  latitude :: real
  longitude :: real

definition js_of_location :: "user_location \<Rightarrow> jsval" where
  "js_of_location u = JObj [(''latitude'', JNum (latitude u)), (''longitude'', JNum (longitude u))]"

section \<open>Tag validation and tag mapping\<close>

definition TAGINFO_API :: string where
  "TAGINFO_API = ''https://taginfo.openstreetmap.org/api/4''"

definition taginfo_url :: "string \<Rightarrow> string \<Rightarrow> string" where
  "taginfo_url key val =
     TAGINFO_API @ ''/tag/values?key='' @ encodeURIComponent key @ ''&value='' @ encodeURIComponent val"

text \<open>\<^verbatim>\<open>entries.some(entry => entry.value === value)\<close>, stopping at the first hit or throw.\<close>

fun some_value :: "jsval list \<Rightarrow> jsval \<Rightarrow> error + jsval" where
  "some_value [] v = Inr (JBool False)"
| "some_value (entry # entries) v =
     bindE (get entry ''value'') (\<lambda>w. if strict_eq w v then Inr (JBool True) else some_value entries v)"

text \<open>
  \<^verbatim>\<open>validateOsmTag\<close>, lines 18 to 29. The body of the \<^verbatim>\<open>try\<close> is \<open>validateOsmTag_try\<close>; calling
  \<^verbatim>\<open>some\<close> on a value that is not an array is a TypeError.
\<close>

definition validateOsmTag_try :: "env \<Rightarrow> jsval \<Rightarrow> jsval \<Rightarrow> error + jsval" where
  "validateOsmTag_try env key val =
     bindE (fetch_json (taginfo env
        (taginfo_url (toString (numToString env) key) (toString (numToString env) val)))) (\<lambda>data.
     bindE (get data ''data'') (\<lambda>d.
       case d of
         JUndefined \<Rightarrow> Inr JUndefined
       | JNull \<Rightarrow> Inr JUndefined
       | JArr entries \<Rightarrow> some_value entries val
       | _ \<Rightarrow> Inl TypeError))"

definition validateOsmTag :: "env \<Rightarrow> jsval \<Rightarrow> jsval \<Rightarrow> jsval" where
  "validateOsmTag env key val =
     (case validateOsmTag_try env key val of Inr r \<Rightarrow> r | Inl e \<Rightarrow> JBool False)"

text \<open>\<^verbatim>\<open>mapToOsmTags\<close>, lines 31 to 50.\<close>

definition mapToOsmTags :: "env \<Rightarrow> string \<Rightarrow> jsval" where
  "mapToOsmTags env term =
     (case bindE (chat_json (chat_mapping env term)) (\<lambda>result.
           bindE (get result ''key'') (\<lambda>k.
           bindE (get result ''value'') (\<lambda>v.
             if truthy (validateOsmTag env k v) then Inr result else Inr JNull)))
      of Inr r \<Rightarrow> r | Inl e \<Rightarrow> JNull)"

section \<open>The query synthesizer\<close>

fun numOf :: "jsval \<Rightarrow> error + real" where
  "numOf (JNum r) = Inr r"
| "numOf v = Inl Unmodelled"

text \<open>
  \<^verbatim>\<open>buildNominatimQuery\<close>, lines 74 to 100, on the value it is given at run time, in the
  source's three steps. \<open>searchTerms\<close> is lines 76 to 81: the term, and a bracketed clause
  read from \<^verbatim>\<open>parsedQuery.osm_tags?.specific\<close>. \<open>geographic_context\<close> is lines 86 to 95,
  the parameters appended when \<^verbatim>\<open>parsedQuery.location?.coordinates\<close> is truthy, with the
  radius read from \<^verbatim>\<open>parsedQuery.location.radius?.value || 5\<close>.
\<close>

definition searchTerms :: "(real \<Rightarrow> string) \<Rightarrow> jsval \<Rightarrow> error + jsval list" where
  "searchTerms ns parsedQuery =
     bindE (get parsedQuery ''searchTerm'') (\<lambda>searchTerm.
     bindE (get parsedQuery ''osm_tags'') (\<lambda>osm_tags.
       if truthy (opt_get osm_tags ''specific'')
       then bindE (get osm_tags ''specific'') (\<lambda>specific.
            bindE (get specific ''key'') (\<lambda>k.
            bindE (get specific ''value'') (\<lambda>v.
              Inr [searchTerm, JStr (''['' @ toString ns k @ ''='' @ toString ns v @ '']'')])))
       else Inr [searchTerm]))"

definition geographic_context :: "(real \<Rightarrow> string) \<Rightarrow> jsval \<Rightarrow> error + (string \<times> string) list" where
  "geographic_context ns parsedQuery =
     bindE (get parsedQuery ''location'') (\<lambda>location.
       if truthy (opt_get location ''coordinates'')
       then bindE (get location ''coordinates'') (\<lambda>coordinates.
            bindE (get coordinates ''latitude'') (\<lambda>lat.
            bindE (get coordinates ''longitude'') (\<lambda>lon.
            bindE (get location ''radius'') (\<lambda>r.
            bindE (numOf (if truthy (opt_get r ''value'') then opt_get r ''value'' else JNum 5))
              (\<lambda>radius.
            bindE (numOf lat) (\<lambda>lat.
            bindE (numOf lon) (\<lambda>lon.
              let viewboxSize = radius * 0.02 in
              Inr [(''viewbox'', ns (lon - viewboxSize) @ '','' @ ns (lat + viewboxSize) @ '',''
                                 @ ns (lon + viewboxSize) @ '','' @ ns (lat - viewboxSize)),
                   (''bounded'', ''1'')])))))))
       else Inr [])"

definition buildNominatimQuery :: "(real \<Rightarrow> string) \<Rightarrow> jsval \<Rightarrow> error + string" where
  "buildNominatimQuery ns parsedQuery =
     bindE (searchTerms ns parsedQuery) (\<lambda>terms.
     bindE (geographic_context ns parsedQuery) (\<lambda>geo.
       Inr (URLSearchParams_toString
              ([(''q'', join ns terms '' '')] @ geo @ [(''format'', ''json''), (''limit'', ''10'')]))))"

section \<open>The intent resolver\<close>

text \<open>
  \<^verbatim>\<open>parseSearchQuery\<close>, lines 136 to 179. \<open>parseSearchQuery_try\<close> is the body of the \<^verbatim>\<open>try\<close>:
  the chat call, \<^verbatim>\<open>JSON.parse\<close>, the injection of the user's position when the reply says
  \<^verbatim>\<open>location.type === 'current'\<close>, and the schema's \<^verbatim>\<open>parse\<close>. The \<^verbatim>\<open>catch\<close> block builds the
  fallback object and hands it to the schema's \<^verbatim>\<open>parse\<close> as well, outside any \<^verbatim>\<open>try\<close>.
\<close>

definition default_radius :: jsval where
  "default_radius = JObj [(''value'', JNum 5), (''unit'', JStr ''kilometers'')]"

definition zod_parse :: "zschema \<Rightarrow> jsval \<Rightarrow> error + jsval" where
  "zod_parse s v = (case zparse s v of None \<Rightarrow> Inl ZodError | Some w \<Rightarrow> Inr w)"

definition parseSearchQuery_try :: "env \<Rightarrow> string \<Rightarrow> user_location option \<Rightarrow> error + jsval" where
  "parseSearchQuery_try env query userLocation =
     bindE (chat_json (chat_analysis env query)) (\<lambda>parsed.
     bindE (get parsed ''location'') (\<lambda>location.
     bindE (case userLocation of
              Some u \<Rightarrow>
                if opt_get location ''type'' = JStr ''current''
                then bindE (put location ''coordinates'' (js_of_location u)) (\<lambda>location1.
                     bindE (put location1 ''radius'' default_radius) (\<lambda>location2.
                       put parsed ''location'' location2))
                else Inr parsed
            | None \<Rightarrow> Inr parsed) (\<lambda>parsed.
       zod_parse ParsedQuerySchema parsed)))"

definition parseSearchQuery :: "env \<Rightarrow> string \<Rightarrow> user_location option \<Rightarrow> error + jsval" where
  "parseSearchQuery env query userLocation =
     (case parseSearchQuery_try env query userLocation of
        Inr intent \<Rightarrow> Inr intent
      | Inl e \<Rightarrow>
          zod_parse ParsedQuerySchema (JObj [
            (''searchTerm'', JStr query),
            (''location'', (case userLocation of
                 Some u \<Rightarrow> JObj [(''coordinates'', js_of_location u), (''radius'', default_radius)]
               | None \<Rightarrow> JUndefined)),
            (''osmTags'', mapToOsmTags env query)]))"

section \<open>The geocode resolver\<close>

definition NOMINATIM :: string where
  "NOMINATIM = ''https://nominatim.openstreetmap.org/search?''"

definition plain_url :: "string \<Rightarrow> string \<Rightarrow> string" where
  "plain_url query limit = NOMINATIM @ ''q='' @ encodeURIComponent query @ ''&format=json&limit='' @ limit"

text \<open>
  \<^verbatim>\<open>searchLocations\<close>, lines 103 to 133. Besides its result the model returns the URLs it
  fetched from the geocoder, in order. \<open>searchLocations_try\<close> is the body of the \<^verbatim>\<open>try\<close>.
\<close>

definition searchLocations_try ::
  "env \<Rightarrow> string \<Rightarrow> user_location option \<Rightarrow> (error + jsval) \<times> string list" where
  "searchLocations_try env query userLocation =
     (case parseSearchQuery env query userLocation of
        Inl e \<Rightarrow> (Inl e, [])
      | Inr parsedQuery \<Rightarrow>
         (case buildNominatimQuery (numToString env) parsedQuery of
            Inl e \<Rightarrow> (Inl e, [])
          | Inr params \<Rightarrow>
             (case geocode env 0 (NOMINATIM @ params) of
                NetworkError \<Rightarrow> (Inl FetchError, [NOMINATIM @ params])
              | Response ok body \<Rightarrow>
                  if \<not> ok then (Inl SearchFailed, [NOMINATIM @ params])
                  else (case body of
                          None \<Rightarrow> (Inl SyntaxError, [NOMINATIM @ params])
                        | Some results \<Rightarrow>
                           (case js_length results of
                              Inl e \<Rightarrow> (Inl e, [NOMINATIM @ params])
                            | Inr n \<Rightarrow>
                                if strict_eq n (JNum 0)
                                then (fetch_json (geocode env 1 (plain_url query ''10'')),
                                      [NOMINATIM @ params, plain_url query ''10''])
                                else (Inr results, [NOMINATIM @ params]))))))"

definition searchLocations ::
  "env \<Rightarrow> string \<Rightarrow> user_location option \<Rightarrow> (error + jsval) \<times> string list" where
  "searchLocations env query userLocation =
     (case searchLocations_try env query userLocation of
        (Inr results, urls) \<Rightarrow> (Inr results, urls)
      | (Inl e, urls) \<Rightarrow>
          (fetch_json (geocode env (length urls) (plain_url query ''3'')),
           urls @ [plain_url query ''3'']))"

section \<open>The ranking stage\<close>

text \<open>
  \<^verbatim>\<open>App.tsx\<close>. A \<^verbatim>\<open>Location\<close> is what the component declares; \<^verbatim>\<open>calculateDistance\<close>
  (lines 113 to 123) is the haversine formula, over the reals here.
\<close>

record location =
  lat :: real
  lon :: real
  display_name :: string

definition atan2 :: "real \<Rightarrow> real \<Rightarrow> real" where
  "atan2 y x =
     (if 0 < x then arctan (y / x)
      else if x < 0 then (if 0 \<le> y then arctan (y / x) + pi else arctan (y / x) - pi)
      else if 0 < y then pi / 2 else if y < 0 then - pi / 2 else 0)"

definition calculateDistance :: "real \<Rightarrow> real \<Rightarrow> real \<Rightarrow> real \<Rightarrow> real" where
  "calculateDistance lat1 lon1 lat2 lon2 =
     (let R = 6371;
          dLat = (lat2 - lat1) * pi / 180;
          dLon = (lon2 - lon1) * pi / 180;
          a = sin (dLat / 2) * sin (dLat / 2) +
              cos (lat1 * pi / 180) * cos (lat2 * pi / 180) *
              sin (dLon / 2) * sin (dLon / 2);
          c = 2 * atan2 (sqrt a) (sqrt (1 - a))
      in R * c)"

text \<open>
  The component's state, and what \<^verbatim>\<open>handleSearch\<close> calls from outside: the browser's
  geolocation (asked up to twice, \<open>None\<close> when it rejects) and the imported
  \<^verbatim>\<open>searchLocations\<close>, with the results typed as the component types them.
\<close>

record app_state =
  locations :: "location list"
  selectedLocation :: "nat option"
  isLoading :: bool
  error_msg :: "string option"
  expandedResults :: bool
  searchContext :: "string option"
  searchQuery :: string

record browser =
  getCurrentPosition :: "nat \<Rightarrow> user_location option"
  searchLocationsApi :: "string \<Rightarrow> user_location option \<Rightarrow> error + location list"

definition toLowerCase :: "string \<Rightarrow> string" where
  "toLowerCase s =
     map (\<lambda>c. if 65 \<le> (of_char c :: nat) \<and> (of_char c :: nat) \<le> 90
               then char_of (of_char c + (32 :: nat)) else c) s"

fun includes_str :: "string \<Rightarrow> string \<Rightarrow> bool" where
  "includes_str [] t = (t = [])"
| "includes_str (c # s) t = (prefix t (c # s) \<or> includes_str s t)"

text \<open>
  \<^verbatim>\<open>handleSearch\<close>, lines 24 to 102. The function is a closure of one render: it reads
  \<^verbatim>\<open>expandedResults\<close> as that render had it (the argument \<open>expanded\<close>), while each
  \<^verbatim>\<open>set...\<close> call updates the state \<open>st\<close> that the next render will show. The call of
  \<^verbatim>\<open>parseSearchQuery\<close> on line 46 names a function the file does not import; its
  ReferenceError is caught on line 52 and changes no state. The comparator sort is the
  stable sort by distance.
\<close>

definition handleSearch :: "browser \<Rightarrow> bool \<Rightarrow> app_state \<Rightarrow> string \<Rightarrow> app_state" where
  "handleSearch br expanded st query =
     (let st1 = st\<lparr>searchQuery := query, isLoading := True, error_msg := None,
                   selectedLocation := None, expandedResults := False, searchContext := None\<rparr>;
          nearby = (includes_str (toLowerCase query) ''near me'' \<or>
                    includes_str (toLowerCase query) ''nearby'');
          position =
            (if nearby
             then (case getCurrentPosition br 0 of
                     None \<Rightarrow> Inl GeolocationError
                   | Some p \<Rightarrow> (case getCurrentPosition br 1 of
                                  None \<Rightarrow> Inl GeolocationError
                                | Some p' \<Rightarrow> Inr (Some p')))
             else Inr None);
          st2 =
            (case bindE position (\<lambda>userPosition.
                    bindE (searchLocationsApi br query userPosition) (\<lambda>results.
                      Inr (userPosition, results))) of
               Inl e \<Rightarrow> st1\<lparr>error_msg := Some ''Failed to search locations. Please try again.''\<rparr>
             | Inr (userPosition, results) \<Rightarrow>
                 if length results = 0
                 then st1\<lparr>error_msg := Some ''No locations found. Try a different search term.''\<rparr>
                 else st1\<lparr>locations :=
                        take (if expanded then 10 else 5)
                          (case userPosition of
                             None \<Rightarrow> results
                           | Some u \<Rightarrow>
                               sort_key (\<lambda>r. calculateDistance (latitude u) (longitude u) (lat r) (lon r))
                                 results)\<rparr>)
      in st2\<lparr>isLoading := False\<rparr>)"

text \<open>
  The "Show more results" button, lines 228 to 238: rendered when five locations are
  shown and \<^verbatim>\<open>expandedResults\<close> is false; its handler calls \<^verbatim>\<open>setExpandedResults(true)\<close>
  and then the \<^verbatim>\<open>handleSearch\<close> of the render that shows the button.
\<close>

definition showMore_rendered :: "app_state \<Rightarrow> bool" where
  "showMore_rendered st = (length (locations st) = 5 \<and> \<not> expandedResults st)"

definition showMore_click :: "browser \<Rightarrow> app_state \<Rightarrow> app_state" where
  "showMore_click br st =
     handleSearch br (expandedResults st) (st\<lparr>expandedResults := True\<rparr>) (searchQuery st)"

section \<open>Vocabulary of the statements\<close>

text \<open>The shape of \<^verbatim>\<open>location\<close> inside \<open>ParsedQuerySchema\<close>, named for the proofs.\<close>

definition location_shape :: "(string \<times> zschema) list" where
  "location_shape = [
     (''coordinates'', ZOptional (ZObject [(''latitude'', ZNumber), (''longitude'', ZNumber)])),
     (''radius'', ZOptional ZNumber)]"

definition is_array :: "jsval \<Rightarrow> bool" where
  "is_array v = (case v of JArr xs \<Rightarrow> True | _ \<Rightarrow> False)"

text \<open>
  How the first geocoding request (lines 108 to 116) can end. It failed when \<^verbatim>\<open>fetch\<close>
  rejected, the status was not ok, the body was not JSON, or reading \<^verbatim>\<open>results.length\<close>
  threw; it came back empty when \<^verbatim>\<open>results.length === 0\<close>.
\<close>

definition tier1_failed :: "fetch_result \<Rightarrow> bool" where
  "tier1_failed f =
     (case f of Response ok (Some r) \<Rightarrow> (if ok then isl (js_length r) else True) | _ \<Rightarrow> True)"

definition tier1_empty :: "fetch_result \<Rightarrow> bool" where
  "tier1_empty f =
     (case f of Response ok (Some r) \<Rightarrow> ok \<and> js_length r = Inr (JNum 0) | _ \<Rightarrow> False)"

text \<open>The values a registry answer lists: the \<^verbatim>\<open>value\<close> of each entry of its \<^verbatim>\<open>data\<close>.\<close>

definition known_values :: "jsval list \<Rightarrow> jsval list" where
  "known_values entries = map (\<lambda>entry. opt_get entry ''value'') entries"

text \<open>
  An entry that is neither \<^verbatim>\<open>null\<close> nor \<^verbatim>\<open>undefined\<close> can be asked for its \<^verbatim>\<open>value\<close>;
  \<^verbatim>\<open>some\<close> reaches an entry only if all entries before it can.
\<close>

definition not_nullish :: "jsval \<Rightarrow> bool" where
  "not_nullish v = (v \<noteq> JNull \<and> v \<noteq> JUndefined)"

definition listed_before_null :: "jsval list \<Rightarrow> string \<Rightarrow> bool" where
  "listed_before_null entries val = (JStr val \<in> set (known_values (takeWhile not_nullish entries)))"

section \<open>Concrete runs\<close>

text \<open>
  A number printer for the examples: it gives the digits JavaScript prints for a number with
  at most one decimal place.
\<close>

fun digits :: "nat \<Rightarrow> string" where
  "digits n = (if n < 10 then [''0123456789'' ! n]
               else digits (n div 10) @ [''0123456789'' ! (n mod 10)])"

declare digits.simps [simp del]

definition numToString_dec1 :: "real \<Rightarrow> string" where
  "numToString_dec1 r =
     (let n = nat \<lfloor>\<bar>r\<bar> * 10\<rfloor> in
      (if r < 0 then ''-'' else []) @ digits (n div 10) @
      (if n mod 10 = 0 then [] else ''.'' @ digits (n mod 10)))"

text \<open>Every service is down.\<close>

definition env_down :: env where
  "env_down = \<lparr> numToString = numToString_dec1,
     chat_analysis = (\<lambda>q. ChatFailed), chat_mapping = (\<lambda>q. ChatFailed),
     taginfo = (\<lambda>u. NetworkError), geocode = (\<lambda>n u. NetworkError) \<rparr>"

text \<open>
  The model answers \<^verbatim>\<open>"Italian restaurants near me"\<close> with a "current location" intent and
  one tag; the registry knows the tag.
\<close>

definition reply_near_me :: jsval where
  "reply_near_me = JObj [
     (''searchTerm'', JStr ''Italian restaurants''),
     (''location'', JObj [(''type'', JStr ''current'')]),
     (''osmTags'', JArr [JObj [(''key'', JStr ''cuisine''), (''value'', JStr ''italian'')]])]"

definition env_near_me :: env where
  "env_near_me = \<lparr> numToString = numToString_dec1,
     chat_analysis = (\<lambda>q. Reply reply_near_me), chat_mapping = (\<lambda>q. ChatFailed),
     taginfo = (\<lambda>u. Response True (Some (JObj [(''data'', JArr [JObj [(''value'', JStr ''italian'')]])]))),
     geocode = (\<lambda>n u. Response True (Some (JArr []))) \<rparr>"

text \<open>A validated intent with coordinates and a radius of 10.\<close>

definition intent_radius10 :: jsval where
  "intent_radius10 = JObj [
     (''searchTerm'', JStr ''cafe''),
     (''location'', JObj [
        (''coordinates'', JObj [(''latitude'', JNum 40), (''longitude'', JNum (- 73))]),
        (''radius'', JNum 10)])]"

text \<open>
  The model understands \<^verbatim>\<open>"pizza"\<close>; the geocoder finds nothing for the first request and
  one place for every later one.
\<close>

definition place_rome :: jsval where
  "place_rome = JObj [(''lat'', JStr ''41.9''), (''lon'', JStr ''12.5''),
                      (''display_name'', JStr ''Pizzeria, Roma'')]"

definition env_plain_found :: env where
  "env_plain_found = \<lparr> numToString = numToString_dec1,
     chat_analysis = (\<lambda>q. Reply (JObj [(''searchTerm'', JStr ''pizza'')])),
     chat_mapping = (\<lambda>q. ChatFailed),
     taginfo = (\<lambda>u. NetworkError),
     geocode = (\<lambda>n u. if n = 0 then Response True (Some (JArr []))
                        else Response True (Some (JArr [place_rome]))) \<rparr>"

text \<open>The same, but the second request is lost on the network.\<close>

definition env_tier2_down :: env where
  "env_tier2_down = \<lparr> numToString = numToString_dec1,
     chat_analysis = (\<lambda>q. Reply (JObj [(''searchTerm'', JStr ''pizza'')])),
     chat_mapping = (\<lambda>q. ChatFailed),
     taginfo = (\<lambda>u. NetworkError),
     geocode = (\<lambda>n u. if n = 0 then Response True (Some (JArr []))
                        else if n = 1 then NetworkError
                        else Response True (Some (JArr [place_rome]))) \<rparr>"

text \<open>
  The model proposes a tag the registry does not know (it lists \<^verbatim>\<open>restaurant\<close> only).
\<close>

definition reply_unknown_tag :: jsval where
  "reply_unknown_tag = JObj [
     (''searchTerm'', JStr ''pizza''),
     (''osmTags'', JArr [JObj [(''key'', JStr ''foo''), (''value'', JStr ''bar'')]])]"

definition env_unknown_tag :: env where
  "env_unknown_tag = \<lparr> numToString = numToString_dec1,
     chat_analysis = (\<lambda>q. Reply reply_unknown_tag), chat_mapping = (\<lambda>q. ChatFailed),
     taginfo = (\<lambda>u. Response True
                  (Some (JObj [(''data'', JArr [JObj [(''value'', JStr ''restaurant'')]])]))),
     geocode = (\<lambda>n u. Response True (Some (JArr []))) \<rparr>"

text \<open>Validated intents: one with a tag and no location, one with a radius of 25.\<close>

definition intent_tagged :: jsval where
  "intent_tagged = JObj [
     (''searchTerm'', JStr ''Italian restaurants''),
     (''osmTags'', JArr [JObj [(''key'', JStr ''cuisine''), (''value'', JStr ''italian'')]])]"

definition intent_radius25 :: jsval where
  "intent_radius25 = JObj [
     (''searchTerm'', JStr ''museum''),
     (''location'', JObj [
        (''coordinates'', JObj [(''latitude'', JNum 48), (''longitude'', JNum 2)]),
        (''radius'', JNum 25)])]"

text \<open>
  The component shows five of seven places found for \<^verbatim>\<open>"pizza"\<close>, and the geocoder still
  knows seven.
\<close>

definition place :: "string \<Rightarrow> location" where
  "place name = \<lparr>lat = 41.9, lon = 12.5, display_name = name\<rparr>"

definition seven_places :: "location list" where
  "seven_places = map place [''a'', ''b'', ''c'', ''d'', ''e'', ''f'', ''g'']"

definition browser_seven :: browser where
  "browser_seven = \<lparr> getCurrentPosition = (\<lambda>n. None),
                      searchLocationsApi = (\<lambda>q p. Inr seven_places) \<rparr>"

definition state_five :: app_state where
  "state_five = \<lparr> locations = take 5 seven_places, selectedLocation = None, isLoading = False,
                   error_msg = None, expandedResults = False, searchContext = None,
                   searchQuery = ''pizza'' \<rparr>"

text \<open>
  Registries: one that lists \<^verbatim>\<open>ice cream\<close> for exactly the request the validator should
  make for \<^verbatim>\<open>cuisine\<close> and \<^verbatim>\<open>ice cream\<close>, one whose answer has no \<^verbatim>\<open>data\<close>, and one whose
  list starts with \<^verbatim>\<open>null\<close>.
\<close>

definition env_registry :: env where
  "env_registry = \<lparr> numToString = numToString_dec1,
     chat_analysis = (\<lambda>q. ChatFailed), chat_mapping = (\<lambda>q. ChatFailed),
     taginfo = (\<lambda>u.
        if u = ''https://taginfo.openstreetmap.org/api/4/tag/values?key=cuisine&value=ice%20cream''
        then Response True (Some (JObj [(''data'', JArr [JObj [(''value'', JStr ''ice cream'')]])]))
        else NetworkError),
     geocode = (\<lambda>n u. NetworkError) \<rparr>"

definition env_no_data :: env where
  "env_no_data = \<lparr> numToString = numToString_dec1,
     chat_analysis = (\<lambda>q. ChatFailed), chat_mapping = (\<lambda>q. ChatFailed),
     taginfo = (\<lambda>u. Response True (Some (JObj [(''total'', JNum 0)]))),
     geocode = (\<lambda>n u. NetworkError) \<rparr>"

definition null_then_italian :: "jsval list" where
  "null_then_italian = [JNull, JObj [(''value'', JStr ''italian'')]]"

definition env_null_entry :: env where
  "env_null_entry = \<lparr> numToString = numToString_dec1,
     chat_analysis = (\<lambda>q. ChatFailed), chat_mapping = (\<lambda>q. ChatFailed),
     taginfo = (\<lambda>u. Response True (Some (JObj [(''data'', JArr null_then_italian)]))),
     geocode = (\<lambda>n u. NetworkError) \<rparr>"

section \<open>Reading validated values\<close>

lemma opt_get_JObj:
  "opt_get (JObj kvs) p = (case map_of kvs p of None \<Rightarrow> JUndefined | Some v \<Rightarrow> v)"
  by simp

lemma get_JObj:
  "get (JObj kvs) p = Inr (case map_of kvs p of None \<Rightarrow> JUndefined | Some v \<Rightarrow> v)"
  by simp

lemma get_JObj_opt: "get (JObj kvs) p = Inr (opt_get (JObj kvs) p)"
  by simp

lemma zparse_shape_defined:
  "zparse_shape shape v = Some kvs \<Longrightarrow> (k, s) \<in> set shape \<Longrightarrow>
     \<exists>y. zparse s (opt_get v k) = Some y"
  by (induction shape arbitrary: kvs) (auto split: option.splits)

lemma zparse_shape_map_of:
  "zparse_shape shape v = Some kvs \<Longrightarrow> distinct (map fst shape) \<Longrightarrow>
     map_of kvs k =
       (case map_of shape k of
          None \<Rightarrow> None
        | Some s \<Rightarrow> (case zparse s (opt_get v k) of
                       None \<Rightarrow> None
                     | Some y \<Rightarrow> if y = JUndefined then None else Some y))"
proof (induction shape arbitrary: kvs)
  case Nil
  then show ?case by simp
next
  case (Cons a shape)
  obtain k0 s0 where a: "a = (k0, s0)" by (cases a)
  from Cons.prems(1) a obtain y ys where
    y: "zparse s0 (opt_get v k0) = Some y" and ys: "zparse_shape shape v = Some ys"
    and kvs: "kvs = (if y = JUndefined then ys else (k0, y) # ys)"
    by (auto split: option.splits)
  from Cons.prems(2) a have d: "distinct (map fst shape)" and nk: "k0 \<notin> fst ` set shape"
    by auto
  note IH = Cons.IH [OF ys d]
  from nk have m0: "map_of shape k0 = None" by (simp add: map_of_eq_None_iff)
  show ?case
  proof (cases "k = k0")
    case True
    with a y kvs IH m0 show ?thesis by simp
  next
    case False
    with a y kvs IH show ?thesis by simp
  qed
qed

text \<open>A declared key of a validated object holds the validated value of that key.\<close>

lemma zparse_object_field:
  assumes "zparse (ZObject shape) v = Some w" and "distinct (map fst shape)"
    and "map_of shape k = Some s"
  shows "zparse s (opt_get v k) = Some (opt_get w k)"
proof -
  from assms(1) obtain kvs where w: "w = JObj kvs" and sh: "zparse_shape shape v = Some kvs"
    by (auto split: jsval.splits)
  from assms(3) have "(k, s) \<in> set shape" by (rule map_of_SomeD)
  from zparse_shape_defined [OF sh this] obtain y where y: "zparse s (opt_get v k) = Some y" ..
  from zparse_shape_map_of [OF sh assms(2), of k] assms(3) y
  have "map_of kvs k = (if y = JUndefined then None else Some y)" by simp
  with w y show ?thesis by simp
qed

text \<open>A key the schema does not declare is stripped.\<close>

lemma zparse_object_other:
  assumes "zparse (ZObject shape) v = Some w" and "distinct (map fst shape)"
    and "map_of shape k = None"
  shows "opt_get w k = JUndefined"
proof -
  from assms(1) obtain kvs where w: "w = JObj kvs" and sh: "zparse_shape shape v = Some kvs"
    by (auto split: jsval.splits)
  from zparse_shape_map_of [OF sh assms(2), of k] assms(3) have "map_of kvs k = None" by simp
  with w show ?thesis by simp
qed

lemma zparse_object_is_object: "zparse (ZObject shape) v = Some w \<Longrightarrow> \<exists>kvs. w = JObj kvs"
  by (auto split: jsval.splits)

lemma zparse_optional_cases:
  "zparse (ZOptional s) v = Some w \<Longrightarrow> w = JUndefined \<or> zparse s v = Some w"
  by (auto split: if_splits)

lemma zparse_number: "zparse ZNumber v = Some w \<Longrightarrow> \<exists>r. w = JNum r"
  by (auto split: jsval.splits)

lemma zparse_string: "zparse ZString v = Some w \<Longrightarrow> \<exists>t. w = JStr t"
  by (auto split: jsval.splits)

lemma intent_osm_tags_absent:
  assumes "zparse ParsedQuerySchema x = Some intent"
  shows "get intent ''osm_tags'' = Inr JUndefined"
proof -
  from assms obtain kvs where i: "intent = JObj kvs"
    unfolding ParsedQuerySchema_def by (blast dest: zparse_object_is_object)
  from assms have "opt_get intent ''osm_tags'' = JUndefined"
    unfolding ParsedQuerySchema_def by (rule zparse_object_other) simp_all
  with i show ?thesis by simp
qed

lemma intent_searchTerm:
  assumes "zparse ParsedQuerySchema x = Some intent"
  shows "\<exists>t. get intent ''searchTerm'' = Inr (JStr t)"
proof -
  from assms obtain kvs where i: "intent = JObj kvs"
    unfolding ParsedQuerySchema_def by (blast dest: zparse_object_is_object)
  from assms have "zparse ZString (opt_get x ''searchTerm'') = Some (opt_get intent ''searchTerm'')"
    unfolding ParsedQuerySchema_def by (rule zparse_object_field) simp_all
  then obtain t where "opt_get intent ''searchTerm'' = JStr t" by (blast dest: zparse_string)
  with i show ?thesis by simp
qed

lemma intent_location:
  assumes "zparse ParsedQuerySchema x = Some intent"
  shows "opt_get intent ''location'' = JUndefined \<or>
         zparse (ZObject location_shape) (opt_get x ''location'') = Some (opt_get intent ''location'')"
proof -
  from assms have "zparse (ZOptional (ZObject location_shape)) (opt_get x ''location'')
      = Some (opt_get intent ''location'')"
    unfolding ParsedQuerySchema_def location_shape_def by (rule zparse_object_field) simp_all
  then show ?thesis by (rule zparse_optional_cases)
qed

text \<open>A validated radius is absent or a number, so it has no \<^verbatim>\<open>value\<close> property.\<close>

lemma location_radius:
  assumes "zparse (ZObject location_shape) lx = Some loc"
  shows "opt_get (opt_get loc ''radius'') ''value'' = JUndefined"
proof -
  from assms have "zparse (ZOptional ZNumber) (opt_get lx ''radius'') = Some (opt_get loc ''radius'')"
    unfolding location_shape_def by (rule zparse_object_field) simp_all
  then have "opt_get loc ''radius'' = JUndefined \<or> (\<exists>r. opt_get loc ''radius'' = JNum r)"
    by (blast dest: zparse_optional_cases zparse_number)
  then show ?thesis by auto
qed

text \<open>Validated coordinates, when present, are two numbers.\<close>

lemma intent_coordinates_numbers:
  assumes v: "zparse ParsedQuerySchema x = Some intent"
    and c: "opt_get (opt_get intent ''location'') ''coordinates'' \<noteq> JUndefined"
  shows "\<exists>la lo.
     opt_get (opt_get (opt_get intent ''location'') ''coordinates'') ''latitude'' = JNum la \<and>
     opt_get (opt_get (opt_get intent ''location'') ''coordinates'') ''longitude'' = JNum lo"
proof -
  let ?loc = "opt_get intent ''location''"
  let ?co = "opt_get ?loc ''coordinates''"
  let ?cs = "[(''latitude'', ZNumber), (''longitude'', ZNumber)]"
  from c have "?loc \<noteq> JUndefined" by auto
  with intent_location [OF v] have
    loc: "zparse (ZObject location_shape) (opt_get x ''location'') = Some ?loc" by blast
  then have "zparse (ZOptional (ZObject ?cs)) (opt_get (opt_get x ''location'') ''coordinates'') = Some ?co"
    unfolding location_shape_def by (rule zparse_object_field) simp_all
  with c obtain cx where co: "zparse (ZObject ?cs) cx = Some ?co"
    by (blast dest: zparse_optional_cases)
  from co have "zparse ZNumber (opt_get cx ''latitude'') = Some (opt_get ?co ''latitude'')"
    by (rule zparse_object_field) simp_all
  moreover from co have "zparse ZNumber (opt_get cx ''longitude'') = Some (opt_get ?co ''longitude'')"
    by (rule zparse_object_field) simp_all
  ultimately show ?thesis by (blast dest: zparse_number)
qed

lemmas url_encoding =
  URLSearchParams_toString_def formEncode_def encodeURIComponent_def isAlnum_def percent_def
  hexDigit_def

section \<open>The intent resolver's fallback\<close>

lemma mapToOsmTags_defined: "mapToOsmTags env term \<noteq> JUndefined"
  by (cases "chat_mapping env term"; cases "chat_json (chat_mapping env term)")
     (auto simp: mapToOsmTags_def bindE_def split: sum.splits elim: get.elims)

text \<open>
  The fallback object never passes the schema when a position was supplied: its
  \<^verbatim>\<open>radius\<close> is an object and the schema wants a number.
\<close>

lemma fallback_with_position_rejected:
  "zparse ParsedQuerySchema (JObj [(''searchTerm'', JStr query),
      (''location'', JObj [(''coordinates'', js_of_location u), (''radius'', default_radius)]),
      (''osmTags'', m)]) = None"
  by (simp add: ParsedQuerySchema_def js_of_location_def default_radius_def)

text \<open>
  Without a position it passes only if \<^verbatim>\<open>mapToOsmTags\<close> returned an array; what that
  function returns is \<^verbatim>\<open>null\<close> or the single object the model proposed.
\<close>

lemma fallback_without_array_rejected:
  "\<not> is_array m \<Longrightarrow> m \<noteq> JUndefined \<Longrightarrow>
   zparse ParsedQuerySchema
     (JObj [(''searchTerm'', JStr query), (''location'', JUndefined), (''osmTags'', m)]) = None"
  by (cases m) (simp_all add: ParsedQuerySchema_def is_array_def)

text \<open>
  C1 (the code departs from the claim). The claim: when the model call errors, returns
  invalid JSON, or its reply fails the schema, \<^verbatim>\<open>parseSearchQuery\<close> does not raise and
  returns an intent whose \<^verbatim>\<open>searchTerm\<close> is the raw text. The code: a failed call and a
  reply that is not JSON make the \<^verbatim>\<open>try\<close> block fail, and whenever the \<^verbatim>\<open>try\<close> block
  fails (for these reasons or any other, a schema failure included) and the tag mapping gives
  no array (it gives \<^verbatim>\<open>null\<close> or one tag object), the schema rejects the fallback object and
  \<^verbatim>\<open>parseSearchQuery\<close> raises the validation error, with or without a user position.
\<close>

theorem parseSearchQuery_fallback_raises:
  assumes "\<not> is_array (mapToOsmTags env query)"
  shows "(chat_analysis env query = ChatFailed \<or> chat_analysis env query = InvalidJSON \<longrightarrow>
            isl (parseSearchQuery_try env query userLocation)) \<and>
         (isl (parseSearchQuery_try env query userLocation) \<longrightarrow>
            parseSearchQuery env query userLocation = Inl ZodError)"
proof (intro conjI impI)
  assume "chat_analysis env query = ChatFailed \<or> chat_analysis env query = InvalidJSON"
  then show "isl (parseSearchQuery_try env query userLocation)"
    by (auto simp: parseSearchQuery_try_def bindE_def)
next
  assume "isl (parseSearchQuery_try env query userLocation)"
  then obtain e where e: "parseSearchQuery_try env query userLocation = Inl e"
    by (auto simp: isl_def)
  show "parseSearchQuery env query userLocation = Inl ZodError"
  proof (cases userLocation)
    case None
    with e fallback_without_array_rejected [OF assms mapToOsmTags_defined] show ?thesis
      by (simp add: parseSearchQuery_def zod_parse_def)
  next
    case (Some u)
    with e fallback_with_position_rejected show ?thesis
      by (simp add: parseSearchQuery_def zod_parse_def)
  qed
qed

theorem parseSearchQuery_fallback_raises_witness:
  "chat_analysis env_down ''coffee shops'' = ChatFailed \<and>
   mapToOsmTags env_down ''coffee shops'' = JNull \<and>
   isl (parseSearchQuery_try env_down ''coffee shops'' None) \<and>
   parseSearchQuery env_down ''coffee shops'' None = Inl ZodError"
proof -
  have a: "chat_analysis env_down ''coffee shops'' = ChatFailed"
    by (simp add: env_down_def)
  have m: "mapToOsmTags env_down ''coffee shops'' = JNull"
    by (simp add: mapToOsmTags_def env_down_def bindE_def)
  then have b: "\<not> is_array (mapToOsmTags env_down ''coffee shops'')"
    by (simp add: is_array_def)
  from parseSearchQuery_fallback_raises [OF b, of None] a m show ?thesis
    by simp
qed

text \<open>With a position the fallback raises whatever the tag mapping returns.\<close>

lemma parseSearchQuery_fallback_raises_with_position:
  assumes "isl (parseSearchQuery_try env query (Some u))"
  shows "parseSearchQuery env query (Some u) = Inl ZodError"
proof -
  from assms obtain e where "parseSearchQuery_try env query (Some u) = Inl e"
    by (auto simp: isl_def)
  with fallback_with_position_rejected show ?thesis
    by (simp add: parseSearchQuery_def zod_parse_def)
qed

section \<open>The "current location" reply\<close>

lemma put_location_rejected:
  assumes "put parsed ''location'' (JObj lk) = Inr parsed'"
    and "map_of lk ''radius'' = Some default_radius"
  shows "zparse ParsedQuerySchema parsed' = None"
proof (rule ccontr)
  assume "zparse ParsedQuerySchema parsed' \<noteq> None"
  then obtain w where w: "zparse ParsedQuerySchema parsed' = Some w" by blast
  from assms(1) obtain kvs where p: "parsed = JObj kvs"
    and p': "parsed' = JObj (AList.update ''location'' (JObj lk) kvs)"
    by (cases parsed) auto
  have l: "opt_get parsed' ''location'' = JObj lk" by (simp add: p' update_conv')
  from w have "zparse (ZOptional (ZObject location_shape)) (opt_get parsed' ''location'')
      = Some (opt_get w ''location'')"
    unfolding ParsedQuerySchema_def location_shape_def by (rule zparse_object_field) simp_all
  with l obtain lw where lw: "zparse (ZObject location_shape) (JObj lk) = Some lw"
    by (auto split: if_splits)
  then have "zparse (ZOptional ZNumber) (opt_get (JObj lk) ''radius'') = Some (opt_get lw ''radius'')"
    unfolding location_shape_def by (rule zparse_object_field) simp_all
  with assms(2) show False by (simp add: default_radius_def)
qed

text \<open>
  C9 (the code departs from the claim). The claim: when the reply declares the current
  location and a position was supplied, the returned intent carries the position in
  \<^verbatim>\<open>location.coordinates\<close> and a radius of 5 kilometers. The code: for every such reply and
  every supplied position \<^verbatim>\<open>parseSearchQuery\<close> returns no intent at all. It writes the radius
  as the object \<^verbatim>\<open>{ value: 5, unit: 'kilometers' }\<close>, the schema (which wants a number) rejects
  the reply, and the fallback object, built with the same radius, is rejected too.
\<close>

theorem parseSearchQuery_current_location_raises:
  assumes "chat_analysis env query = Reply parsed"
    and "opt_get (opt_get parsed ''location'') ''type'' = JStr ''current''"
  shows "parseSearchQuery env query (Some u) = Inl ZodError"
proof -
  from assms(2) obtain kvs where p: "parsed = JObj kvs" by (cases parsed) auto
  from assms(2) obtain lk where l: "opt_get parsed ''location'' = JObj lk"
    by (cases "opt_get parsed ''location''") auto
  define lk2 where
    "lk2 = AList.update ''radius'' default_radius (AList.update ''coordinates'' (js_of_location u) lk)"
  have r: "map_of lk2 ''radius'' = Some default_radius" by (simp add: lk2_def update_conv')
  have "zparse ParsedQuerySchema (JObj (AList.update ''location'' (JObj lk2) kvs)) = None"
    by (rule put_location_rejected [OF _ r, of "JObj kvs"]) simp
  with assms p l have "parseSearchQuery_try env query (Some u) = Inl ZodError"
    by (simp add: parseSearchQuery_try_def bindE_def zod_parse_def lk2_def get_JObj_opt
          del: opt_get_JObj get_JObj)
  with fallback_with_position_rejected show ?thesis
    by (simp add: parseSearchQuery_def zod_parse_def)
qed

theorem parseSearchQuery_current_location_raises_witness:
  "chat_analysis env_near_me ''Italian restaurants near me'' = Reply reply_near_me \<and>
   opt_get (opt_get reply_near_me ''location'') ''type'' = JStr ''current'' \<and>
   parseSearchQuery env_near_me ''Italian restaurants near me''
     (Some \<lparr>latitude = 40, longitude = - 73\<rparr>) = Inl ZodError"
proof -
  have a: "chat_analysis env_near_me ''Italian restaurants near me'' = Reply reply_near_me"
    by (simp add: env_near_me_def)
  have b: "opt_get (opt_get reply_near_me ''location'') ''type'' = JStr ''current''"
    by (simp add: reply_near_me_def)
  from parseSearchQuery_current_location_raises [OF a b] a b show ?thesis by simp
qed

section \<open>The viewbox\<close>

text \<open>
  C10. For every intent that passed the schema and has coordinates, the query string is
  built with a half-width of \<open>5 * 0.02 = 0.1\<close> degrees around them, whatever number
  \<^verbatim>\<open>location.radius\<close> holds: the right-hand side does not mention the radius.
\<close>

theorem viewbox_half_width_fixed:
  assumes v: "zparse ParsedQuerySchema x = Some intent"
    and la: "opt_get (opt_get (opt_get intent ''location'') ''coordinates'') ''latitude'' = JNum la"
    and lo: "opt_get (opt_get (opt_get intent ''location'') ''coordinates'') ''longitude'' = JNum lo"
  shows "buildNominatimQuery ns intent =
     Inr (URLSearchParams_toString
       [(''q'', toString ns (opt_get intent ''searchTerm'')),
        (''viewbox'', ns (lo - 0.1) @ '','' @ ns (la + 0.1) @ '','' @ ns (lo + 0.1) @ '',''
                      @ ns (la - 0.1)),
        (''bounded'', ''1''), (''format'', ''json''), (''limit'', ''10'')])"
proof -
  from v obtain kvs where i: "intent = JObj kvs"
    unfolding ParsedQuerySchema_def by (blast dest: zparse_object_is_object)
  from intent_searchTerm [OF v] obtain t where t: "get intent ''searchTerm'' = Inr (JStr t)" ..
  with i have t': "opt_get intent ''searchTerm'' = JStr t" by simp
  have tags: "get intent ''osm_tags'' = Inr JUndefined" by (rule intent_osm_tags_absent [OF v])
  from la have "opt_get intent ''location'' \<noteq> JUndefined" by auto
  with intent_location [OF v] obtain lx where
    loc: "zparse (ZObject location_shape) lx = Some (opt_get intent ''location'')" by blast
  then obtain lk where lk: "opt_get intent ''location'' = JObj lk"
    by (blast dest: zparse_object_is_object)
  with i have gl: "get intent ''location'' = Inr (JObj lk)" by simp
  have rad: "opt_get (opt_get (JObj lk) ''radius'') ''value'' = JUndefined"
    using location_radius [OF loc] lk by simp
  from la lk obtain ck where ck: "opt_get (JObj lk) ''coordinates'' = JObj ck"
    by (cases "opt_get (JObj lk) ''coordinates''") auto
  from la lo lk ck have la': "opt_get (JObj ck) ''latitude'' = JNum la"
    and lo': "opt_get (JObj ck) ''longitude'' = JNum lo" by simp_all
  show ?thesis
    unfolding buildNominatimQuery_def searchTerms_def geographic_context_def
    by (simp add: t t' tags gl rad ck la' lo' bindE_def join_def get_JObj_opt Let_def
          del: get_JObj opt_get_JObj)
qed

theorem viewbox_half_width_fixed_witness:
  "zparse ParsedQuerySchema intent_radius10 = Some intent_radius10 \<and>
   opt_get (opt_get intent_radius10 ''location'') ''radius'' = JNum 10 \<and>
   buildNominatimQuery numToString_dec1 intent_radius10 =
     Inr ''q=cafe&viewbox=-73.1%2C40.1%2C-72.9%2C39.9&bounded=1&format=json&limit=10''"
proof -
  have v: "zparse ParsedQuerySchema intent_radius10 = Some intent_radius10"
    by (simp add: ParsedQuerySchema_def intent_radius10_def)
  have la: "opt_get (opt_get (opt_get intent_radius10 ''location'') ''coordinates'') ''latitude''
              = JNum 40"
    and lo: "opt_get (opt_get (opt_get intent_radius10 ''location'') ''coordinates'') ''longitude''
              = JNum (- 73)"
    and r: "opt_get (opt_get intent_radius10 ''location'') ''radius'' = JNum 10"
    by (simp_all add: intent_radius10_def)
  have t: "opt_get intent_radius10 ''searchTerm'' = JStr ''cafe''"
    by (simp add: intent_radius10_def)
  have n: "numToString_dec1 (- 73 - 0.1) = ''-73.1''" "numToString_dec1 (40 + 0.1) = ''40.1''"
    "numToString_dec1 (- 73 + 0.1) = ''-72.9''" "numToString_dec1 (40 - 0.1) = ''39.9''"
    by (simp_all add: numToString_dec1_def digits.simps)
  have "buildNominatimQuery numToString_dec1 intent_radius10 =
     Inr ''q=cafe&viewbox=-73.1%2C40.1%2C-72.9%2C39.9&bounded=1&format=json&limit=10''"
    unfolding viewbox_half_width_fixed [OF v la lo] t n
    by (simp add: url_encoding)
  with v r show ?thesis by simp
qed

section \<open>The geocode resolver's ladder\<close>

lemma intercalate_snoc2:
  "xs \<noteq> [] \<Longrightarrow> intercalate sep (xs @ [a, b]) = intercalate sep xs @ sep @ a @ sep @ b"
  by (induction sep xs rule: intercalate.induct) auto

lemma toString_snoc2:
  "ps \<noteq> [] \<Longrightarrow> URLSearchParams_toString (ps @ [(''format'', ''json''), (''limit'', ''10'')])
     = URLSearchParams_toString ps @ ''&format=json&limit=10''"
proof -
  assume ps: "ps \<noteq> []"
  have f: "formEncode ''format'' = ''format''" "formEncode ''json'' = ''json''"
    "formEncode ''limit'' = ''limit''" "formEncode ''10'' = ''10''"
    by (simp_all add: formEncode_def isAlnum_def)
  from ps show ?thesis
    by (simp add: URLSearchParams_toString_def intercalate_snoc2 f)
qed


lemma bindE_InrE:
  assumes "bindE m f = Inr y"
  obtains x where "m = Inr x" and "f x = Inr y"
  using assms by (cases m) (auto simp: bindE_def)

lemma buildNominatimQuery_shape:
  "buildNominatimQuery ns pq = Inr params \<Longrightarrow>
   \<exists>terms geo. params = URLSearchParams_toString
      (((''q'', join ns terms '' '') # geo) @ [(''format'', ''json''), (''limit'', ''10'')])"
  unfolding buildNominatimQuery_def by (elim bindE_InrE) auto

lemma buildNominatimQuery_suffix:
  assumes "buildNominatimQuery ns pq = Inr params"
  shows "\<exists>p. params = p @ ''&format=json&limit=10''"
proof -
  from buildNominatimQuery_shape [OF assms] obtain terms geo where
    "params = URLSearchParams_toString
       (((''q'', join ns terms '' '') # geo) @ [(''format'', ''json''), (''limit'', ''10'')])"
    by (elim exE)
  then have eq: "params = URLSearchParams_toString ((''q'', join ns terms '' '') # geo)
                        @ ''&format=json&limit=10''"
    by (simp only: toString_snoc2 list.distinct not_False_eq_True)
  show ?thesis by (rule exI, rule eq)
qed

lemma plain3_not_tier1:
  assumes "buildNominatimQuery ns pq = Inr params"
  shows "plain_url query ''3'' \<noteq> NOMINATIM @ params"
proof
  assume eq: "plain_url query ''3'' = NOMINATIM @ params"
  from buildNominatimQuery_suffix [OF assms] obtain p where "params = p @ ''&format=json&limit=10''" by (rule exE)
  then have "last (NOMINATIM @ params) = CHR ''0''" by simp
  moreover have "last (plain_url query ''3'') = CHR ''3''" by (simp add: plain_url_def)
  ultimately have "CHR ''3'' = CHR ''0''" using eq by metis
  then show False by simp
qed

lemma plain3_not_plain10: "plain_url query ''3'' \<noteq> plain_url query ''10''"
  by (simp add: plain_url_def)


lemma js_length_zero: "strict_eq n (JNum 0) = (n = JNum 0)"
  by (cases n) auto

lemma try_intent_failed:
  "parseSearchQuery env query loc = Inl e \<Longrightarrow> searchLocations_try env query loc = (Inl e, [])"
  by (simp add: searchLocations_try_def)

lemma try_synthesis_failed:
  "parseSearchQuery env query loc = Inr pq \<Longrightarrow> buildNominatimQuery (numToString env) pq = Inl e \<Longrightarrow>
   searchLocations_try env query loc = (Inl e, [])"
  by (simp add: searchLocations_try_def)

lemma try_tier1_failed:
  assumes "parseSearchQuery env query loc = Inr pq"
    and "buildNominatimQuery (numToString env) pq = Inr params"
    and "tier1_failed (geocode env 0 (NOMINATIM @ params))"
  shows "\<exists>e. searchLocations_try env query loc = (Inl e, [NOMINATIM @ params])"
  using assms
  by (cases "geocode env 0 (NOMINATIM @ params)")
     (auto simp: searchLocations_try_def tier1_failed_def isl_def split: option.splits if_splits)

lemma try_tier1_empty:
  assumes "parseSearchQuery env query loc = Inr pq"
    and "buildNominatimQuery (numToString env) pq = Inr params"
    and "tier1_empty (geocode env 0 (NOMINATIM @ params))"
  shows "searchLocations_try env query loc =
           (fetch_json (geocode env 1 (plain_url query ''10'')),
            [NOMINATIM @ params, plain_url query ''10''])"
  using assms
  by (cases "geocode env 0 (NOMINATIM @ params)")
     (auto simp: searchLocations_try_def tier1_empty_def split: option.splits if_splits)

lemma try_tier1_found:
  assumes "parseSearchQuery env query loc = Inr pq"
    and "buildNominatimQuery (numToString env) pq = Inr params"
    and "\<not> tier1_failed (geocode env 0 (NOMINATIM @ params))"
    and "\<not> tier1_empty (geocode env 0 (NOMINATIM @ params))"
  shows "\<exists>r. geocode env 0 (NOMINATIM @ params) = Response True (Some r) \<and>
             searchLocations_try env query loc = (Inr r, [NOMINATIM @ params])"
  using assms
  by (cases "geocode env 0 (NOMINATIM @ params)")
     (auto simp: searchLocations_try_def tier1_empty_def tier1_failed_def isl_def js_length_zero
           split: option.splits if_splits sum.splits)

lemma tier1_failed_not_empty: "tier1_failed f \<Longrightarrow> \<not> tier1_empty f"
  by (auto simp: tier1_failed_def tier1_empty_def split: fetch_result.splits option.splits if_splits)

lemma searchLocations_try_cases:
  obtains
    (start) e where "searchLocations_try env query loc = (Inl e, [])"
  | (failed) pq params e where "parseSearchQuery env query loc = Inr pq"
      and "buildNominatimQuery (numToString env) pq = Inr params"
      and "tier1_failed (geocode env 0 (NOMINATIM @ params))"
      and "searchLocations_try env query loc = (Inl e, [NOMINATIM @ params])"
  | (empty) pq params where "parseSearchQuery env query loc = Inr pq"
      and "buildNominatimQuery (numToString env) pq = Inr params"
      and "tier1_empty (geocode env 0 (NOMINATIM @ params))"
      and "searchLocations_try env query loc =
             (fetch_json (geocode env 1 (plain_url query ''10'')),
              [NOMINATIM @ params, plain_url query ''10''])"
  | (found) pq params r where "parseSearchQuery env query loc = Inr pq"
      and "buildNominatimQuery (numToString env) pq = Inr params"
      and "\<not> tier1_failed (geocode env 0 (NOMINATIM @ params))"
      and "\<not> tier1_empty (geocode env 0 (NOMINATIM @ params))"
      and "geocode env 0 (NOMINATIM @ params) = Response True (Some r)"
      and "searchLocations_try env query loc = (Inr r, [NOMINATIM @ params])"
proof (cases "parseSearchQuery env query loc")
  case (Inl e)
  then show ?thesis using start try_intent_failed by blast
next
  case pq: (Inr pq)
  show ?thesis
  proof (cases "buildNominatimQuery (numToString env) pq")
    case (Inl e)
    with pq show ?thesis using start try_synthesis_failed by blast
  next
    case params: (Inr params)
    show ?thesis
    proof (cases "tier1_failed (geocode env 0 (NOMINATIM @ params))")
      case True
      with try_tier1_failed [OF pq params] failed [OF pq params] show ?thesis by blast
    next
      case nf: False
      show ?thesis
      proof (cases "tier1_empty (geocode env 0 (NOMINATIM @ params))")
        case True
        with try_tier1_empty [OF pq params] empty [OF pq params] show ?thesis by blast
      next
        case False
        with nf try_tier1_found [OF pq params] found [OF pq params] show ?thesis by blast
      qed
    qed
  qed
qed

text \<open>
  C7 (amended). The claim: \<^verbatim>\<open>searchLocations\<close> never raises and always returns a list. The
  code: \<^verbatim>\<open>searchLocations\<close> issues at least one request and its outcome is the outcome of
  reading the last request it issued as JSON. Every failure inside the \<^verbatim>\<open>try\<close> block (the
  intent, the synthesis, the first and the second request) leads to the limit-3 request, and
  only then is that request issued. The function raises exactly when the limit-3 request was
  issued and itself failed (the network rejected it or its body is not JSON); the caller
  \<^verbatim>\<open>handleSearch\<close> catches that and reports "Failed to search locations".
\<close>

theorem searchLocations_raises_iff:
  "snd (searchLocations env query loc) \<noteq> [] \<and>
   fst (searchLocations env query loc) =
     fetch_json (geocode env (length (snd (searchLocations env query loc)) - 1)
                   (last (snd (searchLocations env query loc)))) \<and>
   (plain_url query ''3'' \<in> set (snd (searchLocations env query loc))
      \<longleftrightarrow> isl (fst (searchLocations_try env query loc))) \<and>
   (isl (fst (searchLocations env query loc))
      \<longleftrightarrow> plain_url query ''3'' \<in> set (snd (searchLocations env query loc)) \<and>
          isl (fetch_json (geocode env (length (snd (searchLocations env query loc)) - 1)
                 (plain_url query ''3''))))"
proof (cases rule: searchLocations_try_cases [of env query loc])
  case (start e)
  then show ?thesis by (simp add: searchLocations_def)
next
  case (failed pq params e)
  from plain3_not_tier1 [OF failed(2)] failed(4) show ?thesis
    by (simp add: searchLocations_def)
next
  case (empty pq params)
  note ne = plain3_not_tier1 [OF empty(2), of query] plain3_not_plain10 [of query]
  show ?thesis
  proof (cases "fetch_json (geocode env 1 (plain_url query ''10''))")
    case (Inl e)
    with empty(4) ne show ?thesis by (simp add: searchLocations_def)
  next
    case (Inr r)
    with empty(4) ne show ?thesis by (simp add: searchLocations_def)
  qed
next
  case (found pq params r)
  from plain3_not_tier1 [OF found(2), of query] found(5,6) show ?thesis
    by (simp add: searchLocations_def)
qed

text \<open>
  C3 (amended). The claim: each tier is issued only if the previous tier's HTTP call failed or
  returned nothing, and the limit-3 tier specifically when tier 1 raised. The code: when the
  intent resolver raises, the limit-3 request is the only one issued. Otherwise the full query
  is issued first; the plain limit-10 request is issued exactly when the first response was ok
  with a body of length 0; the limit-3 request is issued exactly when the first request
  failed, or came back empty and the plain limit-10 request then failed. When the first
  request comes back empty and the plain limit-10 request yields a body, that body is the
  result and nothing else is requested.
\<close>

theorem searchLocations_ladder:
  "(\<forall>e. parseSearchQuery env query loc = Inl e \<longrightarrow>
        snd (searchLocations env query loc) = [plain_url query ''3'']) \<and>
   (\<forall>pq params.
      parseSearchQuery env query loc = Inr pq \<longrightarrow>
      buildNominatimQuery (numToString env) pq = Inr params \<longrightarrow>
        (take 2 (snd (searchLocations env query loc)) = [NOMINATIM @ params, plain_url query ''10'']
           \<longleftrightarrow> tier1_empty (geocode env 0 (NOMINATIM @ params))) \<and>
        (plain_url query ''3'' \<in> set (snd (searchLocations env query loc))
           \<longleftrightarrow> tier1_failed (geocode env 0 (NOMINATIM @ params)) \<or>
               tier1_empty (geocode env 0 (NOMINATIM @ params)) \<and>
               isl (fetch_json (geocode env 1 (plain_url query ''10'')))) \<and>
        (\<forall>r. tier1_empty (geocode env 0 (NOMINATIM @ params)) \<longrightarrow>
             fetch_json (geocode env 1 (plain_url query ''10'')) = Inr r \<longrightarrow>
             searchLocations env query loc = (Inr r, [NOMINATIM @ params, plain_url query ''10''])))"
proof (intro conjI allI impI)
  fix e assume "parseSearchQuery env query loc = Inl e"
  then show "snd (searchLocations env query loc) = [plain_url query ''3'']"
    by (simp add: searchLocations_def try_intent_failed)
next
  fix pq params
  assume pq: "parseSearchQuery env query loc = Inr pq"
    and params: "buildNominatimQuery (numToString env) pq = Inr params"
  note n1 = plain3_not_tier1 [OF params, of query]
  note n2 = plain3_not_plain10 [of query]
  let ?f = "geocode env 0 (NOMINATIM @ params)"
  consider (failed) "tier1_failed ?f" | (empty) "tier1_empty ?f"
    | (found) "\<not> tier1_failed ?f" "\<not> tier1_empty ?f" by blast
  then have "(take 2 (snd (searchLocations env query loc)) = [NOMINATIM @ params, plain_url query ''10'']
           \<longleftrightarrow> tier1_empty ?f) \<and>
        (plain_url query ''3'' \<in> set (snd (searchLocations env query loc))
           \<longleftrightarrow> tier1_failed ?f \<or> tier1_empty ?f \<and> isl (fetch_json (geocode env 1 (plain_url query ''10''))))"
  proof cases
    case failed
    from try_tier1_failed [OF pq params failed] obtain e where
      "searchLocations_try env query loc = (Inl e, [NOMINATIM @ params])" by (elim exE)
    with failed tier1_failed_not_empty [OF failed] n1 n2 show ?thesis
      by (simp add: searchLocations_def)
  next
    case empty
    then have nf: "\<not> tier1_failed ?f" using tier1_failed_not_empty by blast
    show ?thesis
    proof (cases "fetch_json (geocode env 1 (plain_url query ''10''))")
      case (Inl e)
      with try_tier1_empty [OF pq params empty] empty nf n1 n2 show ?thesis
        by (simp add: searchLocations_def)
    next
      case (Inr r)
      with try_tier1_empty [OF pq params empty] empty nf n1 n2 show ?thesis
        by (simp add: searchLocations_def)
    qed
  next
    case found
    from try_tier1_found [OF pq params found] obtain r where
      "searchLocations_try env query loc = (Inr r, [NOMINATIM @ params])" by (elim exE conjE)
    with found n1 n2 show ?thesis by (simp add: searchLocations_def)
  qed
  then show "take 2 (snd (searchLocations env query loc)) = [NOMINATIM @ params, plain_url query ''10'']
           \<longleftrightarrow> tier1_empty ?f"
    and "plain_url query ''3'' \<in> set (snd (searchLocations env query loc))
           \<longleftrightarrow> tier1_failed ?f \<or> tier1_empty ?f \<and> isl (fetch_json (geocode env 1 (plain_url query ''10'')))"
    by blast+
  fix r
  assume "tier1_empty ?f" and "fetch_json (geocode env 1 (plain_url query ''10'')) = Inr r"
  with try_tier1_empty [OF pq params]
  show "searchLocations env query loc = (Inr r, [NOMINATIM @ params, plain_url query ''10''])"
    by (simp add: searchLocations_def)
qed

lemma parse_pizza:
  "parseSearchQuery env_plain_found ''pizza'' None = Inr (JObj [(''searchTerm'', JStr ''pizza'')])"
  by (simp add: parseSearchQuery_def parseSearchQuery_try_def env_plain_found_def bindE_def
        zod_parse_def ParsedQuerySchema_def)

lemma build_pizza:
  "buildNominatimQuery ns (JObj [(''searchTerm'', JStr ''pizza'')]) = Inr ''q=pizza&format=json&limit=10''"
  by (simp add: buildNominatimQuery_def searchTerms_def geographic_context_def bindE_def join_def
        url_encoding)

theorem searchLocations_ladder_witness:
  "parseSearchQuery env_plain_found ''pizza'' None = Inr (JObj [(''searchTerm'', JStr ''pizza'')]) \<and>
   buildNominatimQuery (numToString env_plain_found) (JObj [(''searchTerm'', JStr ''pizza'')])
     = Inr ''q=pizza&format=json&limit=10'' \<and>
   tier1_empty (geocode env_plain_found 0 (NOMINATIM @ ''q=pizza&format=json&limit=10'')) \<and>
   fetch_json (geocode env_plain_found 1 (plain_url ''pizza'' ''10'')) = Inr (JArr [place_rome]) \<and>
   searchLocations env_plain_found ''pizza'' None =
     (Inr (JArr [place_rome]), [NOMINATIM @ ''q=pizza&format=json&limit=10'', plain_url ''pizza'' ''10'']) \<and>
   parseSearchQuery env_down ''pizza'' None = Inl ZodError \<and>
   snd (searchLocations env_down ''pizza'' None) = [plain_url ''pizza'' ''3'']"
proof -
  note p = parse_pizza
  note b = build_pizza [of "numToString env_plain_found"]
  have t: "tier1_empty (geocode env_plain_found 0 (NOMINATIM @ ''q=pizza&format=json&limit=10''))"
    by (simp add: tier1_empty_def env_plain_found_def)
  have f: "fetch_json (geocode env_plain_found 1 (plain_url ''pizza'' ''10'')) = Inr (JArr [place_rome])"
    by (simp add: env_plain_found_def)
  from searchLocations_ladder [of env_plain_found "''pizza''" None] p b t f
  have s: "searchLocations env_plain_found ''pizza'' None =
     (Inr (JArr [place_rome]), [NOMINATIM @ ''q=pizza&format=json&limit=10'', plain_url ''pizza'' ''10''])"
    by blast
  have d: "parseSearchQuery env_down ''pizza'' None = Inl ZodError"
    by (simp add: parseSearchQuery_def parseSearchQuery_try_def env_down_def bindE_def
          mapToOsmTags_def zod_parse_def ParsedQuerySchema_def)
  from searchLocations_ladder [of env_down "''pizza''" None] d
  have "snd (searchLocations env_down ''pizza'' None) = [plain_url ''pizza'' ''3'']"
    by blast
  with p b t f s d show ?thesis by blast
qed

lemma parse_pizza2:
  "parseSearchQuery env_tier2_down ''pizza'' None = Inr (JObj [(''searchTerm'', JStr ''pizza'')])"
  by (simp add: parseSearchQuery_def parseSearchQuery_try_def env_tier2_down_def bindE_def
        zod_parse_def ParsedQuerySchema_def)

text \<open>
  Against C3 as stated: the first request succeeds with an empty list (tier 1 raised no
  error), the second is lost, and the limit-3 request is issued and answers.
\<close>

theorem tier3_after_empty_tier1:
  "\<not> tier1_failed (geocode env_tier2_down 0 (NOMINATIM @ ''q=pizza&format=json&limit=10'')) \<and>
   searchLocations env_tier2_down ''pizza'' None =
     (Inr (JArr [place_rome]),
      [NOMINATIM @ ''q=pizza&format=json&limit=10'', plain_url ''pizza'' ''10'', plain_url ''pizza'' ''3''])"
proof -
  have g: "geocode env_tier2_down n u =
      (if n = 0 then Response True (Some (JArr [])) else if n = 1 then NetworkError
       else Response True (Some (JArr [place_rome])))" for n u
    by (simp add: env_tier2_down_def)
  have "searchLocations_try env_tier2_down ''pizza'' None =
     (Inl FetchError, [NOMINATIM @ ''q=pizza&format=json&limit=10'', plain_url ''pizza'' ''10''])"
    by (simp add: searchLocations_try_def parse_pizza2 build_pizza g)
  then show ?thesis
    by (simp add: searchLocations_def g tier1_failed_def)
qed

text \<open>Against C7 as stated: with every service down, \<^verbatim>\<open>searchLocations\<close> raises.\<close>

theorem searchLocations_raises:
  "searchLocations env_down ''pizza'' None = (Inl FetchError, [plain_url ''pizza'' ''3''])"
proof -
  have "parseSearchQuery env_down ''pizza'' None = Inl ZodError"
    by (simp add: parseSearchQuery_def parseSearchQuery_try_def env_down_def bindE_def
          mapToOsmTags_def zod_parse_def ParsedQuerySchema_def)
  then show ?thesis
    by (simp add: searchLocations_def searchLocations_try_def env_down_def)
qed

section \<open>Tags of a returned intent\<close>

text \<open>
  C2 (the code departs from the claim). The claim: every tag of a returned intent has passed
  \<^verbatim>\<open>validateOsmTag\<close>. The code: on the main path the tags of the model's reply pass the
  schema only; \<^verbatim>\<open>validateOsmTag\<close> is called from \<^verbatim>\<open>mapToOsmTags\<close>, on the fallback path.
  Here the registry rejects \<^verbatim>\<open>foo=bar\<close> and the intent is returned with that tag.
\<close>

theorem unvalidated_tag_returned:
  "validateOsmTag env_unknown_tag (JStr ''foo'') (JStr ''bar'') = JBool False \<and>
   parseSearchQuery env_unknown_tag ''pizza'' None = Inr reply_unknown_tag"
proof -
  have "validateOsmTag env_unknown_tag (JStr ''foo'') (JStr ''bar'') = JBool False"
    by (simp add: validateOsmTag_def validateOsmTag_try_def env_unknown_tag_def bindE_def)
  moreover have "parseSearchQuery env_unknown_tag ''pizza'' None = Inr reply_unknown_tag"
    by (simp add: parseSearchQuery_def parseSearchQuery_try_def env_unknown_tag_def bindE_def
          zod_parse_def ParsedQuerySchema_def reply_unknown_tag_def)
  ultimately show ?thesis by simp
qed

text \<open>The main path does not depend on the registry at all.\<close>

lemma parseSearchQuery_try_ignores_registry:
  "parseSearchQuery_try (env\<lparr>taginfo := t\<rparr>) query loc = parseSearchQuery_try env query loc"
  by (simp add: parseSearchQuery_try_def)

section \<open>The tag clause and the radius\<close>

text \<open>
  C4 (the code departs from the claim). The claim: an intent with tags gives a query with
  exactly one bracketed clause, built from the first tag. The code reads the clause from
  \<^verbatim>\<open>parsedQuery.osm_tags?.specific\<close>, a key the schema does not declare and therefore strips:
  for every validated intent (here without a location) the \<^verbatim>\<open>q\<close> parameter is the search
  term alone, whatever \<^verbatim>\<open>osmTags\<close> holds.
\<close>

theorem buildNominatimQuery_without_tag_clause:
  assumes v: "zparse ParsedQuerySchema x = Some intent"
    and l: "opt_get intent ''location'' = JUndefined"
  shows "buildNominatimQuery ns intent =
     Inr (URLSearchParams_toString
       [(''q'', toString ns (opt_get intent ''searchTerm'')), (''format'', ''json''), (''limit'', ''10'')])"
proof -
  from v obtain kvs where i: "intent = JObj kvs"
    unfolding ParsedQuerySchema_def by (blast dest: zparse_object_is_object)
  from intent_searchTerm [OF v] obtain t where t: "get intent ''searchTerm'' = Inr (JStr t)" ..
  with i have t': "opt_get intent ''searchTerm'' = JStr t" by simp
  have tags: "get intent ''osm_tags'' = Inr JUndefined" by (rule intent_osm_tags_absent [OF v])
  from i l have gl: "get intent ''location'' = Inr JUndefined" by simp
  show ?thesis
    unfolding buildNominatimQuery_def searchTerms_def geographic_context_def
    by (simp add: t t' tags gl bindE_def join_def)
qed

theorem buildNominatimQuery_without_tag_clause_witness:
  "zparse ParsedQuerySchema intent_tagged = Some intent_tagged \<and>
   opt_get intent_tagged ''location'' = JUndefined \<and>
   opt_get intent_tagged ''osmTags'' = JArr [JObj [(''key'', JStr ''cuisine''), (''value'', JStr ''italian'')]] \<and>
   buildNominatimQuery numToString_dec1 intent_tagged = Inr ''q=Italian+restaurants&format=json&limit=10''"
proof -
  have v: "zparse ParsedQuerySchema intent_tagged = Some intent_tagged"
    by (simp add: ParsedQuerySchema_def intent_tagged_def)
  have l: "opt_get intent_tagged ''location'' = JUndefined"
    and o: "opt_get intent_tagged ''osmTags'' = JArr [JObj [(''key'', JStr ''cuisine''), (''value'', JStr ''italian'')]]"
    and t: "opt_get intent_tagged ''searchTerm'' = JStr ''Italian restaurants''"
    by (simp_all add: intent_tagged_def)
  have "buildNominatimQuery numToString_dec1 intent_tagged = Inr ''q=Italian+restaurants&format=json&limit=10''"
    unfolding buildNominatimQuery_without_tag_clause [OF v l] t
    by (simp add: url_encoding)
  with v l o show ?thesis by simp
qed

text \<open>
  C6 (the code departs from the claim). The claim: the viewbox has half-width
  \<open>radius * 0.02\<close>, the radius defaulting to 5 when unset. The code: for this validated
  intent with radius 25 around (48, 2) the claim gives the half-width 0.5; the query has the
  half-width 0.1, the one of the default radius.
\<close>

theorem radius_ignored:
  "zparse ParsedQuerySchema intent_radius25 = Some intent_radius25 \<and>
   opt_get (opt_get intent_radius25 ''location'') ''radius'' = JNum 25 \<and>
   buildNominatimQuery numToString_dec1 intent_radius25 =
     Inr ''q=museum&viewbox=1.9%2C48.1%2C2.1%2C47.9&bounded=1&format=json&limit=10''"
proof -
  have n: "numToString_dec1 (19 / 10) = ''1.9''" "numToString_dec1 (481 / 10) = ''48.1''"
    "numToString_dec1 (21 / 10) = ''2.1''" "numToString_dec1 (479 / 10) = ''47.9''"
    by (simp_all add: numToString_dec1_def digits.simps)
  have "buildNominatimQuery numToString_dec1 intent_radius25 =
     Inr ''q=museum&viewbox=1.9%2C48.1%2C2.1%2C47.9&bounded=1&format=json&limit=10''"
    by (simp add: buildNominatimQuery_def searchTerms_def geographic_context_def bindE_def join_def
          intent_radius25_def n url_encoding)
  then show ?thesis by (simp add: ParsedQuerySchema_def intent_radius25_def)
qed

section \<open>The tag validator\<close>

lemma strict_eq_string: "strict_eq w (JStr s) = (w = JStr s)"
  by (cases w) auto

lemma get_value:
  "not_nullish entry \<Longrightarrow> get entry ''value'' = Inr (opt_get entry ''value'')"
  by (cases entry) (auto simp: not_nullish_def)

lemma get_nullish: "\<not> not_nullish entry \<Longrightarrow> get entry p = Inl TypeError"
  by (cases entry) (auto simp: not_nullish_def)

lemma some_value_outcome:
  "some_value entries (JStr s) =
     (if listed_before_null entries s then Inr (JBool True)
      else if list_all not_nullish entries then Inr (JBool False)
      else Inl TypeError)"
proof (induction entries)
  case Nil
  then show ?case by (simp add: listed_before_null_def known_values_def)
next
  case (Cons entry entries)
  show ?case
  proof (cases "not_nullish entry")
    case True
    with Cons get_value [OF True] show ?thesis
      by (auto simp: listed_before_null_def known_values_def bindE_def strict_eq_string)
  next
    case False
    with get_nullish [OF False] show ?thesis
      by (simp add: listed_before_null_def known_values_def bindE_def)
  qed
qed

lemma taginfo_url_spelled:
  "taginfo_url key val =
     ''https://taginfo.openstreetmap.org/api/4/tag/values?key='' @ encodeURIComponent key
       @ ''&value='' @ encodeURIComponent val"
  by (simp add: taginfo_url_def TAGINFO_API_def)

lemma validateOsmTag_by_answer:
  "validateOsmTag env (JStr key) (JStr val) =
     (case fetch_json (taginfo env (taginfo_url key val)) of
        Inl e \<Rightarrow> JBool False
      | Inr data \<Rightarrow>
          if \<not> not_nullish data then JBool False
          else (case opt_get data ''data'' of
                  JUndefined \<Rightarrow> JUndefined
                | JNull \<Rightarrow> JUndefined
                | JArr entries \<Rightarrow> JBool (listed_before_null entries val)
                | _ \<Rightarrow> JBool False))"
proof (cases "fetch_json (taginfo env (taginfo_url key val))")
  case (Inl e)
  then show ?thesis by (simp add: validateOsmTag_def validateOsmTag_try_def bindE_def)
next
  case (Inr data)
  show ?thesis
  proof (cases "not_nullish data")
    case False
    with Inr get_nullish [OF False] show ?thesis
      by (simp add: validateOsmTag_def validateOsmTag_try_def bindE_def)
  next
    case True
    then have g: "get data ''data'' = Inr (opt_get data ''data'')"
      by (cases data) (auto simp: not_nullish_def)
    from Inr True g show ?thesis
      by (cases "opt_get data ''data''")
         (simp_all add: validateOsmTag_def validateOsmTag_try_def bindE_def some_value_outcome
            del: opt_get_JObj get_JObj)
  qed
qed

text \<open>
  C8 (amended). The claim: \<^verbatim>\<open>validateOsmTag\<close> returns true iff the value is among the
  registry's known values for the key, false for every other pair, and false on any network
  or parse error. The code, for every key and value (strings) and every answer to the
  request \<^verbatim>\<open>/tag/values?key=...&value=...\<close> with both components URI-encoded: it never raises;
  it returns true exactly when the answer is a JSON object whose \<^verbatim>\<open>data\<close> is an array in
  which an entry with that value comes before any \<^verbatim>\<open>null\<close> entry; it returns
  \<^verbatim>\<open>undefined\<close> exactly when the answer is JSON other than \<^verbatim>\<open>null\<close> whose \<^verbatim>\<open>data\<close> is
  absent or \<^verbatim>\<open>null\<close>; and it returns false in every other case (the request fails, the
  body is not JSON or is \<^verbatim>\<open>null\<close>, \<^verbatim>\<open>data\<close> is not an array, the value is not listed, or
  a \<^verbatim>\<open>null\<close> entry is reached first).
\<close>

theorem validateOsmTag_outcome:
  "(let answer = fetch_json (taginfo env
         (''https://taginfo.openstreetmap.org/api/4/tag/values?key='' @ encodeURIComponent key
            @ ''&value='' @ encodeURIComponent val));
        result = validateOsmTag env (JStr key) (JStr val)
    in (result = JBool True \<longleftrightarrow>
          (\<exists>body entries. answer = Inr (JObj body) \<and> map_of body ''data'' = Some (JArr entries) \<and>
                           listed_before_null entries val)) \<and>
       (result = JUndefined \<longleftrightarrow>
          (\<exists>data. answer = Inr data \<and> not_nullish data \<and> \<not> not_nullish (opt_get data ''data''))) \<and>
       (result = JBool True \<or> result = JUndefined \<or> result = JBool False))"
proof -
  let ?answer = "fetch_json (taginfo env (taginfo_url key val))"
  let ?result = "validateOsmTag env (JStr key) (JStr val)"
  have a: "?result = JBool True \<longleftrightarrow>
      (\<exists>body entries. ?answer = Inr (JObj body) \<and> map_of body ''data'' = Some (JArr entries) \<and>
                       listed_before_null entries val)"
  proof (cases ?answer)
    case (Inl e)
    then show ?thesis by (simp add: validateOsmTag_by_answer)
  next
    case (Inr data)
    then show ?thesis
      by (cases data)
         (auto simp: validateOsmTag_by_answer not_nullish_def split: option.splits jsval.splits)
  qed
  have b: "?result = JUndefined \<longleftrightarrow>
      (\<exists>data. ?answer = Inr data \<and> not_nullish data \<and> \<not> not_nullish (opt_get data ''data''))"
  proof (cases ?answer)
    case (Inl e)
    then show ?thesis by (simp add: validateOsmTag_by_answer)
  next
    case (Inr data)
    then show ?thesis
      by (cases "opt_get data ''data''")
         (auto simp: validateOsmTag_by_answer not_nullish_def simp del: opt_get_JObj)
  qed
  have c: "?result = JBool True \<or> ?result = JUndefined \<or> ?result = JBool False"
    by (auto simp: validateOsmTag_by_answer split: sum.splits jsval.splits simp del: opt_get_JObj)
  from a b c show ?thesis unfolding taginfo_url_spelled Let_def by blast
qed

theorem validateOsmTag_outcome_witness:
  "validateOsmTag env_registry (JStr ''cuisine'') (JStr ''ice cream'') = JBool True \<and>
   validateOsmTag env_near_me (JStr ''cuisine'') (JStr ''thai'') = JBool False \<and>
   validateOsmTag env_down (JStr ''cuisine'') (JStr ''italian'') = JBool False"
proof -
  have u: "''https://taginfo.openstreetmap.org/api/4/tag/values?key='' @ encodeURIComponent ''cuisine''
             @ ''&value='' @ encodeURIComponent ''ice cream''
           = ''https://taginfo.openstreetmap.org/api/4/tag/values?key=cuisine&value=ice%20cream''"
    by (simp add: encodeURIComponent_def isAlnum_def percent_def hexDigit_def)
  have f1: "fetch_json (taginfo env_registry
      ''https://taginfo.openstreetmap.org/api/4/tag/values?key=cuisine&value=ice%20cream'')
      = Inr (JObj [(''data'', JArr [JObj [(''value'', JStr ''ice cream'')]])])"
    by (simp add: env_registry_def)
  have f2: "fetch_json (taginfo env_near_me url)
      = Inr (JObj [(''data'', JArr [JObj [(''value'', JStr ''italian'')]])])" for url
    by (simp add: env_near_me_def)
  have f3: "fetch_json (taginfo env_down url) = Inl FetchError" for url
    by (simp add: env_down_def)
  have l: "listed_before_null [JObj [(''value'', JStr ''ice cream'')]] ''ice cream''"
    "\<not> listed_before_null [JObj [(''value'', JStr ''italian'')]] ''thai''"
    by (simp_all add: listed_before_null_def known_values_def not_nullish_def)
  have "validateOsmTag env_registry (JStr ''cuisine'') (JStr ''ice cream'') = JBool True"
    using validateOsmTag_outcome [of env_registry "''cuisine''" "''ice cream''", unfolded u Let_def f1]
      l(1) by simp
  moreover have "validateOsmTag env_near_me (JStr ''cuisine'') (JStr ''thai'') = JBool False"
    using validateOsmTag_outcome [of env_near_me "''cuisine''" "''thai''", unfolded Let_def f2]
      l(2) by (auto simp: not_nullish_def)
  moreover have "validateOsmTag env_down (JStr ''cuisine'') (JStr ''italian'') = JBool False"
    using validateOsmTag_outcome [of env_down "''cuisine''" "''italian''", unfolded Let_def f3]
    by auto
  ultimately show ?thesis by simp
qed

text \<open>The encoding of a component with reserved and unreserved characters.\<close>

lemma encodeURIComponent_example:
  "encodeURIComponent ''Ice cream & co. (x=1)!'' = ''Ice%20cream%20%26%20co.%20(x%3D1)!''"
  by (simp add: encodeURIComponent_def isAlnum_def percent_def hexDigit_def)

text \<open>
  Against C8 as stated: an answer without \<^verbatim>\<open>data\<close> gives \<^verbatim>\<open>undefined\<close>, not false; and a
  value the registry lists after a \<^verbatim>\<open>null\<close> entry gives false.
\<close>

theorem validateOsmTag_undefined_or_misses:
  "fetch_json (taginfo env_no_data (taginfo_url ''cuisine'' ''italian''))
     = Inr (JObj [(''total'', JNum 0)]) \<and>
   validateOsmTag env_no_data (JStr ''cuisine'') (JStr ''italian'') = JUndefined \<and>
   fetch_json (taginfo env_null_entry (taginfo_url ''cuisine'' ''italian''))
     = Inr (JObj [(''data'', JArr null_then_italian)]) \<and>
   JStr ''italian'' \<in> set (known_values null_then_italian) \<and>
   validateOsmTag env_null_entry (JStr ''cuisine'') (JStr ''italian'') = JBool False"
proof -
  have "validateOsmTag env_no_data (JStr ''cuisine'') (JStr ''italian'') = JUndefined"
    by (simp add: validateOsmTag_def validateOsmTag_try_def bindE_def env_no_data_def)
  moreover have "validateOsmTag env_null_entry (JStr ''cuisine'') (JStr ''italian'') = JBool False"
    by (simp add: validateOsmTag_def validateOsmTag_try_def bindE_def env_null_entry_def
          null_then_italian_def)
  moreover have "JStr ''italian'' \<in> set (known_values null_then_italian)"
    by (simp add: known_values_def null_then_italian_def)
  ultimately show ?thesis by (simp add: env_no_data_def env_null_entry_def)
qed

section \<open>The page size\<close>

lemma handleSearch_resets_expansion: "\<not> expandedResults (handleSearch br expanded st query)"
  by (simp add: handleSearch_def Let_def split: sum.splits prod.splits)

lemma handleSearch_page:
  "length (locations (handleSearch br expanded st query))
     \<le> max (length (locations st)) (if expanded then 10 else 5)"
  by (auto simp: handleSearch_def Let_def split: sum.splits prod.splits)

text \<open>
  C5 (the code departs from the claim). The claim: results are truncated to the active page
  size, 5, or 10 after expansion is requested. The code: the handler of "Show more results"
  sets \<^verbatim>\<open>expandedResults\<close> and calls the \<^verbatim>\<open>handleSearch\<close> of the render that shows the
  button, in which \<^verbatim>\<open>expandedResults\<close> is false, and \<^verbatim>\<open>handleSearch\<close> itself resets the
  flag first. After the click at most five locations are shown and the flag is false again.
\<close>

theorem showMore_keeps_five:
  assumes "showMore_rendered st"
  shows "length (locations (showMore_click br st)) \<le> 5 \<and> \<not> expandedResults (showMore_click br st)"
proof -
  from assms have e: "\<not> expandedResults st" and l: "length (locations st) = 5"
    by (simp_all add: showMore_rendered_def)
  from handleSearch_page [of br False "st\<lparr>expandedResults := True\<rparr>" "searchQuery st"] e l
  have "length (locations (showMore_click br st)) \<le> 5"
    by (simp add: showMore_click_def)
  with handleSearch_resets_expansion show ?thesis by (simp add: showMore_click_def)
qed

theorem showMore_keeps_five_witness:
  "showMore_rendered state_five \<and>
   searchLocationsApi browser_seven (searchQuery state_five) None = Inr seven_places \<and>
   length seven_places = 7 \<and>
   locations (showMore_click browser_seven state_five) = take 5 seven_places \<and>
   length (locations (showMore_click browser_seven state_five)) \<le> 5 \<and>
   \<not> expandedResults (showMore_click browser_seven state_five)"
proof -
  have r: "showMore_rendered state_five"
    by (simp add: showMore_rendered_def state_five_def seven_places_def)
  have n: "\<not> includes_str (toLowerCase ''pizza'') ''near me''"
    "\<not> includes_str (toLowerCase ''pizza'') ''nearby''"
    by (simp_all add: toLowerCase_def)
  have "locations (showMore_click browser_seven state_five) = take 5 seven_places"
    by (simp add: showMore_click_def handleSearch_def state_five_def browser_seven_def n bindE_def
          seven_places_def)
  with showMore_keeps_five [OF r, of browser_seven] r show ?thesis
    by (simp add: browser_seven_def seven_places_def)
qed

text \<open>
  What does hold of the ranking: without a position the provider's order is kept, with a
  position the results are sorted by distance (stably: \<open>sort_key\<close> is), and the page is
  cut after sorting.
\<close>

lemma handleSearch_ranked:
  assumes "\<not> includes_str (toLowerCase query) ''near me''" "\<not> includes_str (toLowerCase query) ''nearby''"
    and "searchLocationsApi br query None = Inr results" and "results \<noteq> []"
  shows "locations (handleSearch br expanded st query) = take (if expanded then 10 else 5) results"
  using assms by (simp add: handleSearch_def bindE_def)

lemma handleSearch_sorted:
  assumes "includes_str (toLowerCase query) ''near me'' \<or> includes_str (toLowerCase query) ''nearby''"
    and "getCurrentPosition br 0 = Some p" and "getCurrentPosition br 1 = Some u"
    and "searchLocationsApi br query (Some u) = Inr results" and "results \<noteq> []"
  shows "locations (handleSearch br expanded st query) =
           take (if expanded then 10 else 5)
             (sort_key (\<lambda>r. calculateDistance (latitude u) (longitude u) (lat r) (lon r)) results)"
  using assms by (auto simp add: handleSearch_def bindE_def)

end
